theory Spec2Isabelle
  imports Complex_Main "HOL-Library.Log_Nat"
begin

section \<open>A 2D Navier-Stokes projection solver (Navier\_Stokes\_Solver\_2D.ipynb)\<close>

text \<open>
  The notebook integrates the incompressible Navier-Stokes equations on a square grid:
  finite-difference operators, an explicit predictor, a Jacobi pressure step, a corrector
  and the re-imposition of the wall velocities, driven by a loop over the timesteps.

  Arrays are lists of rows. Array elements and the scalar constants are modelled as
  \<^typ>\<open>real\<close>, and the arithmetic on them is exact. Of the machine numbers the model
  keeps one thing: the initial velocities are float64 arrays of numpy, the arrays of the
  jitted functions are float32, and a value of the former stored into the latter is rounded
  to float32. The rounding of each arithmetic operation, the conversion of the arguments
  when a jitted function is entered, infinities, and the FloatingPointError that
  \<open>jax_debug_nans\<close> raises when a result holds a NaN are not part of the model: a run of
  the model may return a state where the notebook stops on a NaN. Every operation of the
  notebook builds a new array (JAX arrays are immutable, \<open>.at[...].set(...)\<close> returns a
  copy), so the model's functions are pure. The plotting and the synthesis of the initial
  fields are left out; the initial fields are inputs, of the size \<open>N_POINTS\<close> that the
  synthesis gives them.
\<close>

subsection \<open>Indexing and slicing as in Python\<close>

type_synonym array = "real list list"

text \<open>A square \<open>n \<times> n\<close> array: \<open>n\<close> rows of \<open>n\<close> entries.\<close>

definition is_field :: "nat \<Rightarrow> array \<Rightarrow> bool" where
  "is_field n f = (length f = n \<and> list_all (\<lambda>r. length r = n) f)"

text \<open>An integer index: a negative one counts from the end.\<close>

definition py_index :: "nat \<Rightarrow> int \<Rightarrow> nat" where
  "py_index n k = nat (if k < 0 then int n + k else k)"

text \<open>
  A slice \<open>lo:hi\<close> or \<open>lo:\<close> (step 1). Its bounds are clamped to the length the way
  Python does it: a negative bound counts from the end and stops at 0, a positive one stops
  at the length.
\<close>

datatype slice = Slice int "int option"

definition slice_bound :: "nat \<Rightarrow> int \<Rightarrow> nat" where
  "slice_bound n k = (if k < 0 then nat (int n + k) else min n (nat k))"

fun slice_start :: "nat \<Rightarrow> slice \<Rightarrow> nat" where
  "slice_start n (Slice lo hi) = slice_bound n lo"

fun slice_stop :: "nat \<Rightarrow> slice \<Rightarrow> nat" where
  "slice_stop n (Slice lo None) = n"
| "slice_stop n (Slice lo (Some hi)) = slice_bound n hi"

definition take_slice :: "slice \<Rightarrow> 'a list \<Rightarrow> 'a list" where
  "take_slice s xs =
     (let a = slice_start (length xs) s; b = slice_stop (length xs) s
      in take (b - a) (drop a xs))"

text \<open>\<open>f[s1, s2]\<close>: the rows of slice \<open>s1\<close>, each cut to the columns of slice \<open>s2\<close>.\<close>

definition getitem2 :: "array \<Rightarrow> slice \<Rightarrow> slice \<Rightarrow> array" where
  "getitem2 f s1 s2 = map (take_slice s2) (take_slice s1 f)"

text \<open>
  \<open>d.at[s1, s2].set(x)\<close>: a copy of \<open>d\<close> in which the block of the two slices holds
  \<open>x\<close>, cell by cell. (\<open>x\<close> has the shape of the block wherever the notebook calls it.)
\<close>

definition at_set2 :: "array \<Rightarrow> slice \<Rightarrow> slice \<Rightarrow> array \<Rightarrow> array" where
  "at_set2 d s1 s2 x =
     map (\<lambda>i. map (\<lambda>j.
            if slice_start (length d) s1 \<le> i \<and> i < slice_stop (length d) s1 \<and>
               slice_start (length (d ! i)) s2 \<le> j \<and> j < slice_stop (length (d ! i)) s2
            then x ! (i - slice_start (length d) s1) ! (j - slice_start (length (d ! i)) s2)
            else d ! i ! j)
          [0..<length (d ! i)])
       [0..<length d]"

text \<open>\<open>f[k, :]\<close> and \<open>f[:, k]\<close>: a row and a column, as vectors.\<close>

definition row :: "array \<Rightarrow> int \<Rightarrow> real list" where
  "row f k = f ! py_index (length f) k"

definition col :: "array \<Rightarrow> int \<Rightarrow> real list" where
  "col f k = map (\<lambda>r. r ! py_index (length r) k) f"

text \<open>\<open>d.at[k, :].set(v)\<close> and \<open>d.at[:, k].set(v)\<close>.\<close>

definition at_set_row :: "array \<Rightarrow> int \<Rightarrow> real list \<Rightarrow> array" where
  "at_set_row d k v = d[py_index (length d) k := v]"

definition at_set_col :: "array \<Rightarrow> int \<Rightarrow> real list \<Rightarrow> array" where
  "at_set_col d k v = map2 (\<lambda>r x. r[py_index (length r) k := x]) d v"

subsection \<open>Element-wise arithmetic\<close>

definition zeros_like :: "array \<Rightarrow> array" where
  "zeros_like f = map (map (\<lambda>_. 0)) f"

definition arr_add :: "array \<Rightarrow> array \<Rightarrow> array" where
  "arr_add a b = map2 (map2 (+)) a b"

definition arr_sub :: "array \<Rightarrow> array \<Rightarrow> array" where
  "arr_sub a b = map2 (map2 (-)) a b"

definition multiply :: "array \<Rightarrow> array \<Rightarrow> array" where
  "multiply a b = map2 (map2 (*)) a b"

definition scale :: "real \<Rightarrow> array \<Rightarrow> array" where
  "scale c a = map (map (\<lambda>x. c * x)) a"

definition div_by :: "array \<Rightarrow> real \<Rightarrow> array" where
  "div_by a c = map (map (\<lambda>x. x / c)) a"

subsection \<open>The constants\<close>

text \<open>
  The notebook's constants cell assigns six literals and computes
  \<open>ELEMENT_LENGTH = 1 / (N_POINTS - 1)\<close> from them; Python raises ZeroDivisionError
  there when \<open>N_POINTS\<close> is 1. The later cells read the stored values.
  \<open>IMAGE_SCALAR = int(N_POINTS / 32)\<close> only serves the plots, as the step of their
  slices; the plots, and their failure on a step of 0 when \<open>N_POINTS < 32\<close>, are outside
  the model.
\<close>

datatype error = ZeroDivisionError | UnboundLocalError

record globals =
  N_POINTS :: int
  dt :: real
  TIMESTEPS :: int
  VISCOSITY :: real
  DENSITY :: real
  JACOBI_ITERATIONS :: int
  ELEMENT_LENGTH :: real

definition constants :: "int \<Rightarrow> real \<Rightarrow> int \<Rightarrow> real \<Rightarrow> real \<Rightarrow> int \<Rightarrow> error + globals" where
  "constants n d t nu rho k =
     (if n - 1 = 0 then Inl ZeroDivisionError
      else Inr \<lparr>N_POINTS = n, dt = d, TIMESTEPS = t, VISCOSITY = nu, DENSITY = rho,
                JACOBI_ITERATIONS = k, ELEMENT_LENGTH = 1 / real_of_int (n - 1)\<rparr>)"

subsection \<open>The derivative functions\<close>

abbreviation inner :: slice where
  "inner \<equiv> Slice 1 (Some (- 1))"

abbreviation upper :: slice where
  "upper \<equiv> Slice 2 None"

abbreviation lower :: slice where
  "lower \<equiv> Slice 0 (Some (- 2))"

definition d_dx :: "globals \<Rightarrow> array \<Rightarrow> array" where
  "d_dx g f =
     (let diff = zeros_like f
      in at_set2 diff inner inner
           (div_by (arr_sub (getitem2 f inner upper) (getitem2 f inner lower))
                   (2 * ELEMENT_LENGTH g)))"

definition d_dy :: "globals \<Rightarrow> array \<Rightarrow> array" where
  "d_dy g f =
     (let diff = zeros_like f
      in at_set2 diff inner inner
           (div_by (arr_sub (getitem2 f upper inner) (getitem2 f lower inner))
                   (2 * ELEMENT_LENGTH g)))"

definition d2_dx2 :: "globals \<Rightarrow> array \<Rightarrow> array" where
  "d2_dx2 g f =
     (let diff = zeros_like f
      in at_set2 diff inner inner
           (div_by (arr_add (arr_sub (getitem2 f inner upper) (scale 2 (getitem2 f inner inner)))
                            (getitem2 f inner lower))
                   ((ELEMENT_LENGTH g)\<^sup>2)))"

definition d2_dy2 :: "globals \<Rightarrow> array \<Rightarrow> array" where
  "d2_dy2 g f =
     (let diff = zeros_like f
      in at_set2 diff inner inner
           (div_by (arr_add (arr_sub (getitem2 f upper inner) (scale 2 (getitem2 f inner inner)))
                            (getitem2 f lower inner))
                   ((ELEMENT_LENGTH g)\<^sup>2)))"

definition laplacian :: "globals \<Rightarrow> array \<Rightarrow> array" where
  "laplacian g f = arr_add (d2_dx2 g f) (d2_dy2 g f)"

subsection \<open>Step 1: intermediate velocity\<close>

definition u_intermediate :: "globals \<Rightarrow> array \<Rightarrow> array \<Rightarrow> array" where
  "u_intermediate g u v =
     arr_add (arr_sub u (scale (dt g) (arr_add (multiply u (d_dx g u)) (multiply v (d_dy g u)))))
             (scale (dt g * VISCOSITY g) (laplacian g u))"

definition v_intermediate :: "globals \<Rightarrow> array \<Rightarrow> array \<Rightarrow> array" where
  "v_intermediate g u v =
     arr_add (arr_sub v (scale (dt g) (arr_add (multiply u (d_dx g v)) (multiply v (d_dy g v)))))
             (scale (dt g * VISCOSITY g) (laplacian g v))"

subsection \<open>Step 2: pressure\<close>

text \<open>
  One pass of the loop body of \<open>p_update\<close>. First a zero array whose interior is filled
  from \<open>p_prev\<close> and \<open>rhs\<close>:
\<close>

definition jacobi_interior :: "globals \<Rightarrow> array \<Rightarrow> array \<Rightarrow> array" where
  "jacobi_interior g rhs p_prev =
     (let p_next = zeros_like p_prev
      in at_set2 p_next inner inner
           (scale 0.25
              (arr_sub
                 (arr_add (arr_add (arr_add (getitem2 p_prev inner upper) (getitem2 p_prev inner lower))
                                   (getitem2 p_prev upper inner))
                          (getitem2 p_prev lower inner))
                 (scale ((ELEMENT_LENGTH g)\<^sup>2) (getitem2 rhs inner inner)))))"

text \<open>
  then the four edge assignments, in the order of the source. The last one copies row
  \<open>-1\<close> onto itself.
\<close>

definition jacobi_body :: "globals \<Rightarrow> array \<Rightarrow> array \<Rightarrow> array" where
  "jacobi_body g rhs p_prev =
     (let p_next = jacobi_interior g rhs p_prev;
          p_next = at_set_col p_next (- 1) (col p_next (- 2));
          p_next = at_set_row p_next 0 (row p_next 1);
          p_next = at_set_col p_next 0 (col p_next 1);
          p_next = at_set_row p_next (- 1) (row p_next (- 1))
      in p_next)"

text \<open>
  The loop \<open>for i in range(JACOBI_ITERATIONS)\<close>. Its only loop-carried variable is
  \<open>p_next\<close>, unbound (\<open>None\<close>) before the first pass; \<open>p_prev\<close> is read in every pass
  and never assigned.
\<close>

fun jacobi_loop :: "nat \<Rightarrow> globals \<Rightarrow> array \<Rightarrow> array \<Rightarrow> array option \<Rightarrow> array option" where
  "jacobi_loop 0 g rhs p_prev p_next = p_next"
| "jacobi_loop (Suc k) g rhs p_prev p_next =
     jacobi_loop k g rhs p_prev (Some (jacobi_body g rhs p_prev))"

text \<open>
  \<open>DENSITY / dt\<close> divides two Python floats and raises ZeroDivisionError when \<open>dt\<close> is
  zero; \<open>return p_next\<close> raises UnboundLocalError when the loop made no pass.
\<close>

definition p_update :: "globals \<Rightarrow> array \<Rightarrow> array \<Rightarrow> array \<Rightarrow> error + array" where
  "p_update g u v p_prev =
     (if dt g = 0 then Inl ZeroDivisionError
      else
        let rhs = scale (DENSITY g / dt g) (arr_add (d_dx g u) (d_dy g v))
        in case jacobi_loop (nat (JACOBI_ITERATIONS g)) g rhs p_prev None of
             None \<Rightarrow> Inl UnboundLocalError
           | Some p_next \<Rightarrow> Inr p_next)"

subsection \<open>Step 3: final velocity\<close>

text \<open>\<open>dt / DENSITY\<close> divides two Python floats too.\<close>

definition u_update :: "globals \<Rightarrow> array \<Rightarrow> array \<Rightarrow> error + array" where
  "u_update g u p =
     (if DENSITY g = 0 then Inl ZeroDivisionError
      else Inr (arr_sub u (scale (dt g / DENSITY g) (d_dx g p))))"

definition v_update :: "globals \<Rightarrow> array \<Rightarrow> array \<Rightarrow> error + array" where
  "v_update g v p =
     (if DENSITY g = 0 then Inl ZeroDivisionError
      else Inr (arr_sub v (scale (dt g / DENSITY g) (d_dy g p))))"

subsection \<open>Storing float64 values into float32 arrays\<close>

text \<open>
  \<open>u_init\<close> and \<open>v_init\<close> come out of numpy's inverse FFT as float64 arrays, and the
  notebook leaves JAX at its default precision, so the arrays inside the jitted iterator
  are float32. \<open>a.at[...].set(x)\<close> converts \<open>x\<close> to the type of \<open>a\<close>: a float64 value is
  rounded to the nearest float32, ties to even.

  \<open>float32\<close> is that rounding on the reals: 24 significant bits, the exponent of the
  leading bit not below \<open>-126\<close> (smaller values are subnormal and share the spacing
  \<open>pow2 (- 149)\<close>). A value that rounds beyond the largest float32 becomes an infinity in the
  source; the reals have none, so \<open>float32\<close> is meant on \<open>float32_finite\<close> values only.
\<close>

definition pow2 :: "int \<Rightarrow> real" where
  "pow2 e = (if 0 \<le> e then 2 ^ nat e else 1 / 2 ^ nat (- e))"

text \<open>The exponent of the leading bit: \<open>pow2 (binade x) \<le> \<bar>x\<bar> < pow2 (binade x + 1)\<close>.\<close>

definition binade :: "real \<Rightarrow> int" where
  "binade x =
     (if 1 \<le> \<bar>x\<bar> then bitlen \<lfloor>\<bar>x\<bar>\<rfloor> - 1 else - bitlen (\<lceil>1 / \<bar>x\<bar>\<rceil> - 1))"

definition round_half_even :: "real \<Rightarrow> int" where
  "round_half_even x =
     (let f = \<lfloor>x\<rfloor>; d = x - of_int f
      in if d < 1 / 2 then f else if 1 / 2 < d then f + 1 else if even f then f else f + 1)"

definition float32 :: "real \<Rightarrow> real" where
  "float32 x =
     (if x = 0 then 0
      else let q = pow2 (max (binade x) (- 126) - 23)
           in of_int (round_half_even (x / q)) * q)"

definition float32_finite :: "real \<Rightarrow> bool" where
  "float32_finite x = (\<bar>x\<bar> < 2 ^ 128 - 2 ^ 103)"

subsection \<open>The iterator and the timestep loop\<close>

text \<open>
  The four edge assignments the iterator applies to \<open>u_i\<close> after the predictor, each
  storing values of the float64 \<open>u_init\<close> into the float32 \<open>u_i\<close>. The fourth one writes
  the last \<^emph>\<open>column\<close> of \<open>u_init\<close> into the last row.
\<close>

definition set_edges_u_i :: "array \<Rightarrow> array \<Rightarrow> array" where
  "set_edges_u_i u_init u_i =
     (let u_i = at_set_row u_i 0 (map float32 (row u_init 0));
          u_i = at_set_col u_i 0 (map float32 (col u_init 0));
          u_i = at_set_col u_i (- 1) (map float32 (col u_init (- 1)));
          u_i = at_set_row u_i (- 1) (map float32 (col u_init (- 1)))
      in u_i)"

text \<open>
  The four edge assignments as the iterator writes them in the other three places: for
  \<open>v_i\<close> after the predictor, and for \<open>u_next\<close> and \<open>v_next\<close> after the corrector.
\<close>

definition set_edges :: "array \<Rightarrow> array \<Rightarrow> array" where
  "set_edges init f =
     (let f = at_set_row f 0 (map float32 (row init 0));
          f = at_set_col f 0 (map float32 (col init 0));
          f = at_set_col f (- 1) (map float32 (col init (- 1)));
          f = at_set_row f (- 1) (map float32 (row init (- 1)))
      in f)"

type_synonym state = "array \<times> array \<times> array"

text \<open>
  \<open>u_init\<close> and \<open>v_init\<close> are globals of the notebook that the iterator reads. The
  iterator raises what its Python code raises while it is traced; the FloatingPointError
  of \<open>jax_debug_nans\<close> on a NaN in its results has no counterpart here, so nothing below
  says that the iterator of the notebook returns.
\<close>

fun iterator :: "globals \<Rightarrow> array \<Rightarrow> array \<Rightarrow> state \<Rightarrow> error + state" where
  "iterator g u_init v_init (u_prev, v_prev, p_prev) =
     (let u_i = u_intermediate g u_prev v_prev;
          v_i = v_intermediate g u_prev v_prev;
          u_i = set_edges_u_i u_init u_i;
          v_i = set_edges v_init v_i
      in case p_update g u_i v_i p_prev of
           Inl e \<Rightarrow> Inl e
         | Inr p_next \<Rightarrow>
             (case u_update g u_i p_prev of
                Inl e \<Rightarrow> Inl e
              | Inr u_next \<Rightarrow>
                  (case v_update g v_i p_prev of
                     Inl e \<Rightarrow> Inl e
                   | Inr v_next \<Rightarrow>
                       Inr (set_edges u_init u_next, set_edges v_init v_next, p_next))))"

text \<open>
  The loop \<open>for i in range(TIMESTEPS)\<close>, from the state \<open>(u_init, v_init, p_init)\<close>; the
  first exception ends the run.
\<close>

fun timestep_loop :: "nat \<Rightarrow> globals \<Rightarrow> array \<Rightarrow> array \<Rightarrow> state \<Rightarrow> error + state" where
  "timestep_loop 0 g u_init v_init s = Inr s"
| "timestep_loop (Suc n) g u_init v_init s =
     (case iterator g u_init v_init s of
        Inl e \<Rightarrow> Inl e
      | Inr s' \<Rightarrow> timestep_loop n g u_init v_init s')"

definition driver :: "globals \<Rightarrow> array \<Rightarrow> array \<Rightarrow> array \<Rightarrow> error + state" where
  "driver g u_init v_init p_init =
     timestep_loop (nat (TIMESTEPS g)) g u_init v_init (u_init, v_init, p_init)"

text \<open>
  The constants cell, then the loop. In the notebook the cells between them make the initial
  fields, of size \<open>N_POINTS \<times> N_POINTS\<close>; here the fields are arguments, and what is
  stated about \<open>simulation\<close> is stated for fields of that size.
\<close>

definition simulation ::
  "int \<Rightarrow> real \<Rightarrow> int \<Rightarrow> real \<Rightarrow> real \<Rightarrow> int \<Rightarrow> array \<Rightarrow> array \<Rightarrow> array \<Rightarrow> error + state" where
  "simulation n d t nu rho k u_init v_init p_init =
     (case constants n d t nu rho k of
        Inl e \<Rightarrow> Inl e
      | Inr g \<Rightarrow> driver g u_init v_init p_init)"

subsection \<open>Predicates on cells and states\<close>

text \<open>The interior cells \<open>1 \<le> i, j \<le> n - 2\<close>, the cells on the four edges, and a state of three \<open>n \<times> n\<close> fields.\<close>

definition interior :: "nat \<Rightarrow> nat \<Rightarrow> nat \<Rightarrow> bool" where
  "interior n i j = (1 \<le> i \<and> i < n - 1 \<and> 1 \<le> j \<and> j < n - 1)"

definition edge :: "nat \<Rightarrow> nat \<Rightarrow> nat \<Rightarrow> bool" where
  "edge n i j = (i = 0 \<or> i = n - 1 \<or> j = 0 \<or> j = n - 1)"

definition fields :: "nat \<Rightarrow> state \<Rightarrow> bool" where
  "fields n s = (case s of (u, v, p) \<Rightarrow> is_field n u \<and> is_field n v \<and> is_field n p)"

subsection \<open>The Jacobi iteration as the specification words it\<close>

text \<open>
  The specification describes \<open>K\<close> sweeps in which sweep \<open>k + 1\<close> starts from the complete
  result of sweep \<open>k\<close>. This definition follows that sentence, with the sweep of the
  source as its step; it is compared with \<open>jacobi_loop\<close> below and is not part of the
  model of the code.
\<close>

fun spec_jacobi_sweeps :: "nat \<Rightarrow> globals \<Rightarrow> array \<Rightarrow> array \<Rightarrow> array" where
  "spec_jacobi_sweeps 0 g rhs p = p"
| "spec_jacobi_sweeps (Suc k) g rhs p = spec_jacobi_sweeps k g rhs (jacobi_body g rhs p)"

subsection \<open>A small configuration and three fields\<close>

text \<open>
  A \<open>3 \<times> 3\<close> grid: what the constants cell stores for \<open>N_POINTS = 3\<close>, \<open>dt = 1\<close>,
  \<open>TIMESTEPS = 1\<close>, \<open>VISCOSITY = 1\<close>, \<open>DENSITY = 1\<close>, \<open>JACOBI_ITERATIONS = 2\<close>, and initial
  fields in which the last row and the last column of \<open>u3\<close> differ.
\<close>

definition g3 :: globals where
  "g3 = \<lparr>N_POINTS = 3, dt = 1, TIMESTEPS = 1, VISCOSITY = 1, DENSITY = 1,
          JACOBI_ITERATIONS = 2, ELEMENT_LENGTH = 1 / 2\<rparr>"

definition u3 :: array where
  "u3 = [[1, 2, 3], [4, 5, 6], [7, 8, 9]]"

definition v3 :: array where
  "v3 = [[1, 0, 1], [0, 2, 0], [1, 0, 3]]"

definition p3 :: array where
  "p3 = [[0, 1, 0], [2, 0, 4], [0, 3, 0]]"

text \<open>
  \<open>u3\<close> with another corner: \<open>1 + 1 / 2 ^ 30\<close> is a float64 (31 significant bits) and not a
  float32.
\<close>

definition u3w :: array where
  "u3w = [[1 + 1 / 2 ^ 30, 2, 3], [4, 5, 6], [7, 8, 9]]"

section \<open>Shapes and cells\<close>

subsection \<open>Square arrays\<close>

lemma is_field_iff: "is_field n f \<longleftrightarrow> length f = n \<and> (\<forall>i<n. length (f ! i) = n)"
  by (auto simp: is_field_def list_all_length)

lemma is_fieldI: "length f = n \<Longrightarrow> (\<And>i. i < n \<Longrightarrow> length (f ! i) = n) \<Longrightarrow> is_field n f"
  by (simp add: is_field_iff)

lemma field_eqI:
  assumes "is_field n a" "is_field n b" "\<And>i j. i < n \<Longrightarrow> j < n \<Longrightarrow> a ! i ! j = b ! i ! j"
  shows "a = b"
proof (rule nth_equalityI)
  show "length a = length b" using assms(1,2) by (simp add: is_field_iff)
next
  fix i assume "i < length a"
  then have i: "i < n" using assms(1) by (simp add: is_field_iff)
  show "a ! i = b ! i"
    by (rule nth_equalityI) (use i assms in \<open>simp_all add: is_field_iff\<close>)
qed

lemma slice_bound_le: "slice_bound n k \<le> n"
  by (auto simp: slice_bound_def)

lemma slice_stop_le: "slice_stop n s \<le> n"
  by (cases s; cases "case s of Slice lo hi \<Rightarrow> hi") (auto simp: slice_bound_le)

lemma length_take_slice:
  "length (take_slice s xs) = slice_stop (length xs) s - slice_start (length xs) s"
  using slice_stop_le [of "length xs" s] by (simp add: take_slice_def Let_def)

lemma nth_take_slice:
  "i < slice_stop (length xs) s - slice_start (length xs) s \<Longrightarrow>
   take_slice s xs ! i = xs ! (slice_start (length xs) s + i)"
  using slice_stop_le [of "length xs" s] by (simp add: take_slice_def Let_def)

lemma slice_bound_simps [simp]:
  "slice_bound n 0 = 0" "slice_bound n 1 = min n 1" "slice_bound n 2 = min n 2"
  "slice_bound n (- 1) = n - 1" "slice_bound n (- 2) = n - 2"
  by (auto simp: slice_bound_def)

lemma length_getitem2:
  "length (getitem2 f s1 s2) = slice_stop (length f) s1 - slice_start (length f) s1"
  by (simp add: getitem2_def length_take_slice)

lemma nth_getitem2:
  assumes "is_field n f" "i < slice_stop n s1 - slice_start n s1"
    "j < slice_stop n s2 - slice_start n s2"
  shows "getitem2 f s1 s2 ! i ! j = f ! (slice_start n s1 + i) ! (slice_start n s2 + j)"
    and "length (getitem2 f s1 s2 ! i) = slice_stop n s2 - slice_start n s2"
proof -
  have len: "length f = n" using assms(1) by (simp add: is_field_iff)
  have lt: "slice_start n s1 + i < n" using assms(2) slice_stop_le [of n s1] by linarith
  then have r: "length (f ! (slice_start n s1 + i)) = n" using assms(1) by (simp add: is_field_iff)
  have "getitem2 f s1 s2 ! i = take_slice s2 (f ! (slice_start n s1 + i))"
    using assms(2) len by (simp add: getitem2_def length_take_slice nth_take_slice)
  then show "getitem2 f s1 s2 ! i ! j = f ! (slice_start n s1 + i) ! (slice_start n s2 + j)"
    and "length (getitem2 f s1 s2 ! i) = slice_stop n s2 - slice_start n s2"
    using assms(3) r by (simp_all add: nth_take_slice length_take_slice)
qed

lemma at_set2_field: "is_field n d \<Longrightarrow> is_field n (at_set2 d s1 s2 x)"
  by (simp add: is_field_iff at_set2_def)

lemma nth_at_set2:
  assumes "is_field n d" "i < n" "j < n"
  shows "at_set2 d s1 s2 x ! i ! j =
     (if slice_start n s1 \<le> i \<and> i < slice_stop n s1 \<and> slice_start n s2 \<le> j \<and> j < slice_stop n s2
      then x ! (i - slice_start n s1) ! (j - slice_start n s2) else d ! i ! j)"
  using assms by (simp add: is_field_iff at_set2_def)

subsection \<open>Blocks and element-wise arithmetic\<close>

lemma getitem2_field:
  assumes "is_field n f" "slice_stop n s1 - slice_start n s1 = m"
    "slice_stop n s2 - slice_start n s2 = m"
  shows "is_field m (getitem2 f s1 s2)"
proof (rule is_fieldI)
  show "length (getitem2 f s1 s2) = m"
    using assms by (simp add: length_getitem2 is_field_iff)
next
  fix i assume "i < m"
  then show "length (getitem2 f s1 s2 ! i) = m"
    using nth_getitem2(2) [where i = i and j = 0, OF assms(1)] assms(2,3) by simp
qed

lemma map2_field:
  assumes "is_field m a" "is_field m b"
  shows "is_field m (map2 (map2 h) a b)"
  using assms by (simp add: is_field_iff)

lemma nth_map2_field:
  assumes "is_field m a" "is_field m b" "i < m" "j < m"
  shows "map2 (map2 h) a b ! i ! j = h (a ! i ! j) (b ! i ! j)"
  using assms by (simp add: is_field_iff)

lemma map_field: "is_field m a \<Longrightarrow> is_field m (map (map h) a)"
  by (simp add: is_field_iff)

lemma nth_map_field: "is_field m a \<Longrightarrow> i < m \<Longrightarrow> j < m \<Longrightarrow> map (map h) a ! i ! j = h (a ! i ! j)"
  by (simp add: is_field_iff)

lemma arith_field:
  "is_field m a \<Longrightarrow> is_field m b \<Longrightarrow> is_field m (arr_add a b)"
  "is_field m a \<Longrightarrow> is_field m b \<Longrightarrow> is_field m (arr_sub a b)"
  "is_field m a \<Longrightarrow> is_field m b \<Longrightarrow> is_field m (multiply a b)"
  "is_field m a \<Longrightarrow> is_field m (scale c a)"
  "is_field m a \<Longrightarrow> is_field m (div_by a c)"
  "is_field m a \<Longrightarrow> is_field m (zeros_like a)"
  by (simp_all add: arr_add_def arr_sub_def multiply_def scale_def div_by_def zeros_like_def
      map2_field map_field)

lemma nth_arith:
  "is_field m a \<Longrightarrow> is_field m b \<Longrightarrow> i < m \<Longrightarrow> j < m \<Longrightarrow> arr_add a b ! i ! j = a ! i ! j + b ! i ! j"
  "is_field m a \<Longrightarrow> is_field m b \<Longrightarrow> i < m \<Longrightarrow> j < m \<Longrightarrow> arr_sub a b ! i ! j = a ! i ! j - b ! i ! j"
  "is_field m a \<Longrightarrow> is_field m b \<Longrightarrow> i < m \<Longrightarrow> j < m \<Longrightarrow> multiply a b ! i ! j = a ! i ! j * b ! i ! j"
  "is_field m a \<Longrightarrow> i < m \<Longrightarrow> j < m \<Longrightarrow> scale c a ! i ! j = c * a ! i ! j"
  "is_field m a \<Longrightarrow> i < m \<Longrightarrow> j < m \<Longrightarrow> div_by a c ! i ! j = a ! i ! j / c"
  "is_field m a \<Longrightarrow> i < m \<Longrightarrow> j < m \<Longrightarrow> zeros_like a ! i ! j = 0"
  by (simp_all add: arr_add_def arr_sub_def multiply_def scale_def div_by_def zeros_like_def
      nth_map2_field nth_map_field)

lemma block_field:
  assumes "is_field n f"
  shows "is_field (n - 2) (getitem2 f inner inner)" "is_field (n - 2) (getitem2 f inner upper)"
    "is_field (n - 2) (getitem2 f inner lower)" "is_field (n - 2) (getitem2 f upper inner)"
    "is_field (n - 2) (getitem2 f lower inner)"
  using assms by (auto intro!: getitem2_field)

lemma nth_block:
  assumes "is_field n f" "i < n - 2" "j < n - 2"
  shows "getitem2 f inner inner ! i ! j = f ! (i + 1) ! (j + 1)"
    "getitem2 f inner upper ! i ! j = f ! (i + 1) ! (j + 2)"
    "getitem2 f inner lower ! i ! j = f ! (i + 1) ! j"
    "getitem2 f upper inner ! i ! j = f ! (i + 2) ! (j + 1)"
    "getitem2 f lower inner ! i ! j = f ! i ! (j + 1)"
  using assms by (simp_all add: nth_getitem2(1) [where n = n] add.commute)

lemma nth_at_set2_inner:
  assumes "is_field n d" "i < n" "j < n"
  shows "at_set2 d inner inner x ! i ! j =
     (if interior n i j then x ! (i - 1) ! (j - 1) else d ! i ! j)"
  using assms by (auto simp: nth_at_set2 [where n = n] interior_def)

lemma nth_stencil:
  assumes "is_field n f" "i < n" "j < n"
  shows "at_set2 (zeros_like f) inner inner x ! i ! j =
     (if interior n i j then x ! (i - 1) ! (j - 1) else 0)"
  using assms by (simp add: nth_at_set2_inner [where n = n] arith_field nth_arith [where m = n])

lemma stencil_field: "is_field n f \<Longrightarrow> is_field n (at_set2 (zeros_like f) inner inner x)"
  by (simp add: at_set2_field arith_field)

subsection \<open>The operators, cell by cell\<close>

lemma d_dx_field: "is_field n f \<Longrightarrow> is_field n (d_dx g f)"
  by (simp add: d_dx_def stencil_field)

lemma nth_d_dx:
  assumes "is_field n f" "i < n" "j < n"
  shows "d_dx g f ! i ! j =
     (if interior n i j
      then (f ! i ! (j + 1) - f ! i ! (j - 1)) / (2 * ELEMENT_LENGTH g) else 0)"
proof (cases "interior n i j")
  case True
  then have ij: "i - 1 < n - 2" "j - 1 < n - 2" and pos: "1 \<le> i" "1 \<le> j"
    by (simp_all add: interior_def) linarith+
  show ?thesis
    using True assms(1) ij pos
    by (simp add: d_dx_def nth_stencil [OF assms] arith_field
        nth_arith [where m = "n - 2"] block_field nth_block [where n = n])
next
  case False
  then show ?thesis
    by (simp add: d_dx_def nth_stencil [OF assms])
qed

lemma d_dy_field: "is_field n f \<Longrightarrow> is_field n (d_dy g f)"
  by (simp add: d_dy_def stencil_field)

lemma d2_dx2_field: "is_field n f \<Longrightarrow> is_field n (d2_dx2 g f)"
  by (simp add: d2_dx2_def stencil_field)

lemma d2_dy2_field: "is_field n f \<Longrightarrow> is_field n (d2_dy2 g f)"
  by (simp add: d2_dy2_def stencil_field)

lemma laplacian_field: "is_field n f \<Longrightarrow> is_field n (laplacian g f)"
  by (simp add: laplacian_def arith_field d2_dx2_field d2_dy2_field)

lemma nth_d_dy:
  assumes "is_field n f" "i < n" "j < n"
  shows "d_dy g f ! i ! j =
     (if interior n i j
      then (f ! (i + 1) ! j - f ! (i - 1) ! j) / (2 * ELEMENT_LENGTH g) else 0)"
proof (cases "interior n i j")
  case True
  then have ij: "i - 1 < n - 2" "j - 1 < n - 2" and pos: "1 \<le> i" "1 \<le> j"
    by (simp_all add: interior_def) linarith+
  show ?thesis
    using True assms(1) ij pos
    by (simp add: d_dy_def nth_stencil [OF assms] arith_field
        nth_arith [where m = "n - 2"] block_field nth_block [where n = n])
next
  case False
  then show ?thesis
    by (simp add: d_dy_def nth_stencil [OF assms])
qed

lemma nth_d2_dx2:
  assumes "is_field n f" "i < n" "j < n"
  shows "d2_dx2 g f ! i ! j =
     (if interior n i j
      then (f ! i ! (j + 1) - 2 * f ! i ! j + f ! i ! (j - 1)) / (ELEMENT_LENGTH g)\<^sup>2 else 0)"
proof (cases "interior n i j")
  case True
  then have ij: "i - 1 < n - 2" "j - 1 < n - 2" and pos: "1 \<le> i" "1 \<le> j"
    by (simp_all add: interior_def) linarith+
  show ?thesis
    using True assms(1) ij pos
    by (simp add: d2_dx2_def nth_stencil [OF assms] arith_field
        nth_arith [where m = "n - 2"] block_field nth_block [where n = n])
next
  case False
  then show ?thesis
    by (simp add: d2_dx2_def nth_stencil [OF assms])
qed

lemma nth_d2_dy2:
  assumes "is_field n f" "i < n" "j < n"
  shows "d2_dy2 g f ! i ! j =
     (if interior n i j
      then (f ! (i + 1) ! j - 2 * f ! i ! j + f ! (i - 1) ! j) / (ELEMENT_LENGTH g)\<^sup>2 else 0)"
proof (cases "interior n i j")
  case True
  then have ij: "i - 1 < n - 2" "j - 1 < n - 2" and pos: "1 \<le> i" "1 \<le> j"
    by (simp_all add: interior_def) linarith+
  show ?thesis
    using True assms(1) ij pos
    by (simp add: d2_dy2_def nth_stencil [OF assms] arith_field
        nth_arith [where m = "n - 2"] block_field nth_block [where n = n])
next
  case False
  then show ?thesis
    by (simp add: d2_dy2_def nth_stencil [OF assms])
qed

lemma nth_laplacian:
  assumes "is_field n f" "i < n" "j < n"
  shows "laplacian g f ! i ! j = d2_dx2 g f ! i ! j + d2_dy2 g f ! i ! j"
  using assms by (simp add: laplacian_def nth_arith [where m = n] d2_dx2_field d2_dy2_field)

lemma u_intermediate_field:
  "is_field n u \<Longrightarrow> is_field n v \<Longrightarrow> is_field n (u_intermediate g u v)"
  by (simp add: u_intermediate_def arith_field d_dx_field d_dy_field laplacian_field)

lemma v_intermediate_field:
  "is_field n u \<Longrightarrow> is_field n v \<Longrightarrow> is_field n (v_intermediate g u v)"
  by (simp add: v_intermediate_def arith_field d_dx_field d_dy_field laplacian_field)

lemma nth_u_intermediate:
  assumes "is_field n u" "is_field n v" "i < n" "j < n"
  shows "u_intermediate g u v ! i ! j =
     u ! i ! j - dt g * (u ! i ! j * d_dx g u ! i ! j + v ! i ! j * d_dy g u ! i ! j)
       + dt g * VISCOSITY g * laplacian g u ! i ! j"
  using assms
  by (simp add: u_intermediate_def nth_arith [where m = n] arith_field d_dx_field d_dy_field
      laplacian_field)

lemma nth_v_intermediate:
  assumes "is_field n u" "is_field n v" "i < n" "j < n"
  shows "v_intermediate g u v ! i ! j =
     v ! i ! j - dt g * (u ! i ! j * d_dx g v ! i ! j + v ! i ! j * d_dy g v ! i ! j)
       + dt g * VISCOSITY g * laplacian g v ! i ! j"
  using assms
  by (simp add: v_intermediate_def nth_arith [where m = n] arith_field d_dx_field d_dy_field
      laplacian_field)

subsection \<open>Rows and columns\<close>

lemma py_index_simps [simp]:
  "py_index n 0 = 0" "py_index n 1 = 1" "py_index n (- 1) = n - 1" "py_index n (- 2) = n - 2"
  by (auto simp: py_index_def)

lemma at_set_row_field:
  "is_field n d \<Longrightarrow> length v = n \<Longrightarrow> is_field n (at_set_row d k v)"
proof (rule is_fieldI)
  show "length (at_set_row d k v) = n" if "is_field n d"
    using that by (simp add: is_field_iff at_set_row_def)
next
  fix i assume "is_field n d" "length v = n" "i < n"
  then show "length (at_set_row d k v ! i) = n"
    by (cases "i = py_index (length d) k") (simp_all add: is_field_iff at_set_row_def)
qed

lemma at_set_col_field:
  "is_field n d \<Longrightarrow> length v = n \<Longrightarrow> is_field n (at_set_col d k v)"
  by (simp add: is_field_iff at_set_col_def)

lemma length_row: "is_field n f \<Longrightarrow> py_index n k < n \<Longrightarrow> length (row f k) = n"
  by (simp add: is_field_iff row_def)

lemma length_col: "is_field n f \<Longrightarrow> length (col f k) = n"
  by (simp add: is_field_iff col_def)

lemma nth_row: "is_field n f \<Longrightarrow> row f k ! j = f ! py_index n k ! j"
  by (simp add: is_field_iff row_def)

lemma nth_col: "is_field n f \<Longrightarrow> i < n \<Longrightarrow> col f k ! i = f ! i ! py_index n k"
  by (simp add: is_field_iff col_def)

lemma nth_at_set_row:
  "is_field n d \<Longrightarrow> i < n \<Longrightarrow>
   at_set_row d k v ! i ! j = (if i = py_index n k then v ! j else d ! i ! j)"
  by (simp add: is_field_iff at_set_row_def nth_list_update)

lemma nth_at_set_col:
  "is_field n d \<Longrightarrow> length v = n \<Longrightarrow> i < n \<Longrightarrow> j < n \<Longrightarrow>
   at_set_col d k v ! i ! j = (if j = py_index n k then v ! i else d ! i ! j)"
  by (simp add: is_field_iff at_set_col_def nth_list_update)

subsection \<open>The pressure step, cell by cell\<close>

lemma jacobi_interior_field: "is_field n p_prev \<Longrightarrow> is_field n (jacobi_interior g rhs p_prev)"
  by (simp add: jacobi_interior_def stencil_field)

lemma nth_jacobi_interior:
  assumes "is_field n p_prev" "is_field n rhs" "i < n" "j < n"
  shows "jacobi_interior g rhs p_prev ! i ! j =
     (if interior n i j
      then 0.25 * (p_prev ! i ! (j + 1) + p_prev ! i ! (j - 1) + p_prev ! (i + 1) ! j
                   + p_prev ! (i - 1) ! j - (ELEMENT_LENGTH g)\<^sup>2 * rhs ! i ! j)
      else 0)"
proof (cases "interior n i j")
  case True
  then have ij: "i - 1 < n - 2" "j - 1 < n - 2" and pos: "1 \<le> i" "1 \<le> j"
    by (simp_all add: interior_def) linarith+
  show ?thesis
    using True assms(1,2) ij pos
    by (simp add: jacobi_interior_def nth_stencil [OF assms(1,3,4)] arith_field
        nth_arith [where m = "n - 2"] block_field nth_block [where n = n])
next
  case False
  then show ?thesis
    by (simp add: jacobi_interior_def nth_stencil [OF assms(1,3,4)])
qed

lemma jacobi_body_field:
  assumes "is_field n p_prev" "2 \<le> n"
  shows "is_field n (jacobi_body g rhs p_prev)"
proof -
  have "is_field n (jacobi_interior g rhs p_prev)"
    using assms(1) by (rule jacobi_interior_field)
  then show ?thesis
    using assms(2)
    by (simp add: jacobi_body_def Let_def at_set_row_field at_set_col_field length_col length_row)
qed

text \<open>What the four edge assignments make of the interior update.\<close>

lemma nth_jacobi_body:
  assumes "is_field n p_prev" "2 \<le> n" "i < n" "j < n"
  shows "jacobi_body g rhs p_prev ! i ! j =
     jacobi_interior g rhs p_prev ! (if i = 0 then 1 else i)
       ! (if (if j = 0 then 1 else j) = n - 1 then n - 2 else if j = 0 then 1 else j)"
proof -
  define q0 where "q0 = jacobi_interior g rhs p_prev"
  define q1 where "q1 = at_set_col q0 (- 1) (col q0 (- 2))"
  define q2 where "q2 = at_set_row q1 0 (row q1 1)"
  define q3 where "q3 = at_set_col q2 0 (col q2 1)"
  have body: "jacobi_body g rhs p_prev = at_set_row q3 (- 1) (row q3 (- 1))"
    by (simp add: jacobi_body_def Let_def q0_def q1_def q2_def q3_def)
  have f0: "is_field n q0" unfolding q0_def using assms(1) by (rule jacobi_interior_field)
  have f1: "is_field n q1" unfolding q1_def using f0 by (simp add: at_set_col_field length_col)
  have f2: "is_field n q2" unfolding q2_def using f1 assms(2)
    by (simp add: at_set_row_field length_row)
  have f3: "is_field n q3" unfolding q3_def using f2 by (simp add: at_set_col_field length_col)
  have c1: "q1 ! a ! b = q0 ! a ! (if b = n - 1 then n - 2 else b)" if "a < n" "b < n" for a b
    unfolding q1_def using f0 that
    by (simp add: nth_at_set_col [where n = n] length_col nth_col [where n = n])
  have c2: "q2 ! a ! b = q1 ! (if a = 0 then 1 else a) ! b" if "a < n" "b < n" for a b
    unfolding q2_def using f1 that
    by (simp add: nth_at_set_row [where n = n] nth_row [where n = n])
  have c3: "q3 ! a ! b = q2 ! a ! (if b = 0 then 1 else b)" if "a < n" "b < n" for a b
    unfolding q3_def using f2 that
    by (simp add: nth_at_set_col [where n = n] length_col nth_col [where n = n])
  have c4: "jacobi_body g rhs p_prev ! a ! b = q3 ! a ! b" if "a < n" "b < n" for a b
    unfolding body using f3 that
    by (simp add: nth_at_set_row [where n = n] nth_row [where n = n])
  have i': "(if i = 0 then 1 else i) < n" and j': "(if j = 0 then 1 else j) < n"
    using assms(2,3,4) by auto
  show ?thesis
    using assms(3,4) i' j' by (simp only: c4 c3 c2 c1 q0_def)
qed

lemma jacobi_loop_eq:
  "jacobi_loop k g rhs p_prev acc = (if k = 0 then acc else Some (jacobi_body g rhs p_prev))"
  by (induction k arbitrary: acc) simp_all

lemma p_update_eq:
  "p_update g u v p_prev =
     (if dt g = 0 then Inl ZeroDivisionError
      else if JACOBI_ITERATIONS g \<le> 0 then Inl UnboundLocalError
      else Inr (jacobi_body g (scale (DENSITY g / dt g) (arr_add (d_dx g u) (d_dy g v))) p_prev))"
  by (simp add: p_update_def jacobi_loop_eq Let_def)

lemma jacobi_body_last_row:
  assumes "is_field n p_prev" "2 \<le> n" "j < n"
  shows "jacobi_body g rhs p_prev ! (n - 1) ! j = 0"
proof -
  have "jacobi_interior g rhs p_prev ! (n - 1) ! k = 0" if "k < n" for k
    using assms(1,2) that
    by (simp add: jacobi_interior_def nth_stencil [where n = n] interior_def)
  then show ?thesis
    using assms by (simp add: nth_jacobi_body [where n = n])
qed

subsection \<open>The edge assignments, the iterator and the loop\<close>

lemma set_edges_field:
  assumes "is_field n init" "is_field n f" "1 \<le> n"
  shows "is_field n (set_edges init f)"
  using assms
  by (simp add: set_edges_def Let_def at_set_row_field at_set_col_field length_col length_row)

lemma nth_set_edges:
  assumes "is_field n init" "is_field n f" "1 \<le> n" "i < n" "j < n"
  shows "set_edges init f ! i ! j = (if edge n i j then float32 (init ! i ! j) else f ! i ! j)"
proof -
  define q1 where "q1 = at_set_row f 0 (map float32 (row init 0))"
  define q2 where "q2 = at_set_col q1 0 (map float32 (col init 0))"
  define q3 where "q3 = at_set_col q2 (- 1) (map float32 (col init (- 1)))"
  have e: "set_edges init f = at_set_row q3 (- 1) (map float32 (row init (- 1)))"
    by (simp add: set_edges_def Let_def q1_def q2_def q3_def)
  have f1: "is_field n q1" unfolding q1_def using assms(1,2,3)
    by (simp add: at_set_row_field length_row)
  have f2: "is_field n q2" unfolding q2_def using f1 assms(1)
    by (simp add: at_set_col_field length_col)
  have f3: "is_field n q3" unfolding q3_def using f2 assms(1)
    by (simp add: at_set_col_field length_col)
  have c1: "q1 ! i ! j = (if i = 0 then float32 (init ! 0 ! j) else f ! i ! j)"
    unfolding q1_def using assms
    by (simp add: nth_at_set_row [where n = n] nth_row [where n = n] length_row)
  have c2: "q2 ! i ! j = (if j = 0 then float32 (init ! i ! 0) else q1 ! i ! j)"
    unfolding q2_def using f1 assms
    by (simp add: nth_at_set_col [where n = n] length_col nth_col [where n = n])
  have c3: "q3 ! i ! j = (if j = n - 1 then float32 (init ! i ! (n - 1)) else q2 ! i ! j)"
    unfolding q3_def using f2 assms
    by (simp add: nth_at_set_col [where n = n] length_col nth_col [where n = n])
  have c4: "set_edges init f ! i ! j = (if i = n - 1 then float32 (init ! (n - 1) ! j) else q3 ! i ! j)"
    unfolding e using f3 assms
    by (simp add: nth_at_set_row [where n = n] nth_row [where n = n] length_row)
  show ?thesis
    unfolding c4 c3 c2 c1 edge_def by auto
qed

lemma set_edges_u_i_field:
  assumes "is_field n u_init" "is_field n u_i" "1 \<le> n"
  shows "is_field n (set_edges_u_i u_init u_i)"
  using assms
  by (simp add: set_edges_u_i_def Let_def at_set_row_field at_set_col_field length_col length_row)

text \<open>
  Every edge cell holds the float32 of the initial value; the last row of the intermediate
  \<open>u\<close> that of the last column of \<open>u_init\<close>.
\<close>

lemma nth_set_edges_u_i:
  assumes "is_field n u_init" "is_field n u_i" "1 \<le> n" "i < n" "j < n"
  shows "set_edges_u_i u_init u_i ! i ! j =
     (if i = n - 1 then float32 (u_init ! j ! (n - 1))
      else if edge n i j then float32 (u_init ! i ! j) else u_i ! i ! j)"
proof -
  define q1 where "q1 = at_set_row u_i 0 (map float32 (row u_init 0))"
  define q2 where "q2 = at_set_col q1 0 (map float32 (col u_init 0))"
  define q3 where "q3 = at_set_col q2 (- 1) (map float32 (col u_init (- 1)))"
  have e: "set_edges_u_i u_init u_i = at_set_row q3 (- 1) (map float32 (col u_init (- 1)))"
    by (simp add: set_edges_u_i_def Let_def q1_def q2_def q3_def)
  have f1: "is_field n q1" unfolding q1_def using assms(1,2,3)
    by (simp add: at_set_row_field length_row)
  have f2: "is_field n q2" unfolding q2_def using f1 assms(1)
    by (simp add: at_set_col_field length_col)
  have f3: "is_field n q3" unfolding q3_def using f2 assms(1)
    by (simp add: at_set_col_field length_col)
  have c1: "q1 ! i ! j = (if i = 0 then float32 (u_init ! 0 ! j) else u_i ! i ! j)"
    unfolding q1_def using assms
    by (simp add: nth_at_set_row [where n = n] nth_row [where n = n] length_row)
  have c2: "q2 ! i ! j = (if j = 0 then float32 (u_init ! i ! 0) else q1 ! i ! j)"
    unfolding q2_def using f1 assms
    by (simp add: nth_at_set_col [where n = n] length_col nth_col [where n = n])
  have c3: "q3 ! i ! j = (if j = n - 1 then float32 (u_init ! i ! (n - 1)) else q2 ! i ! j)"
    unfolding q3_def using f2 assms
    by (simp add: nth_at_set_col [where n = n] length_col nth_col [where n = n])
  have c4: "set_edges_u_i u_init u_i ! i ! j =
      (if i = n - 1 then float32 (u_init ! j ! (n - 1)) else q3 ! i ! j)"
    unfolding e using f3 assms
    by (simp add: nth_at_set_row [where n = n] nth_col [where n = n] length_col)
  show ?thesis
    unfolding c4 c3 c2 c1 edge_def by auto
qed

text \<open>The iterator in closed form: the three ways it can raise, and its result.\<close>

lemma iterator_cases:
  "iterator g u_init v_init (u_prev, v_prev, p_prev) =
     (if dt g = 0 then Inl ZeroDivisionError
      else if JACOBI_ITERATIONS g \<le> 0 then Inl UnboundLocalError
      else if DENSITY g = 0 then Inl ZeroDivisionError
      else Inr
        (set_edges u_init
           (arr_sub (set_edges_u_i u_init (u_intermediate g u_prev v_prev))
              (scale (dt g / DENSITY g) (d_dx g p_prev))),
         set_edges v_init
           (arr_sub (set_edges v_init (v_intermediate g u_prev v_prev))
              (scale (dt g / DENSITY g) (d_dy g p_prev))),
         jacobi_body g
           (scale (DENSITY g / dt g)
              (arr_add (d_dx g (set_edges_u_i u_init (u_intermediate g u_prev v_prev)))
                       (d_dy g (set_edges v_init (v_intermediate g u_prev v_prev)))))
           p_prev))"
  by (simp add: p_update_eq u_update_def v_update_def Let_def)

declare iterator.simps [simp del]

lemma iterator_fields:
  assumes "iterator g u_init v_init s = Inr s'" "fields n s"
    "is_field n u_init" "is_field n v_init" "2 \<le> n"
  shows "fields n s'"
proof -
  obtain u v p where s: "s = (u, v, p)" by (cases s)
  have n1: "1 \<le> n" using assms(5) by simp
  have uv: "is_field n u" "is_field n v" "is_field n p"
    using assms(2) by (simp_all add: s fields_def)
  have ui: "is_field n (set_edges_u_i u_init (u_intermediate g u v))"
    using uv assms(3) n1 by (simp add: set_edges_u_i_field u_intermediate_field)
  have vi: "is_field n (set_edges v_init (v_intermediate g u v))"
    using uv assms(4) n1 by (simp add: set_edges_field v_intermediate_field)
  show ?thesis
    using assms(1) uv ui vi assms(3,4,5) n1
    by (auto simp: s iterator_cases fields_def set_edges_field arith_field d_dx_field d_dy_field
        jacobi_body_field split: if_splits)
qed

lemma iterator_edges:
  assumes "iterator g u_init v_init s = Inr (u', v', p')" "fields n s"
    "is_field n u_init" "is_field n v_init" "2 \<le> n" "i < n" "j < n" "edge n i j"
  shows "u' ! i ! j = float32 (u_init ! i ! j) \<and> v' ! i ! j = float32 (v_init ! i ! j)"
proof -
  obtain u v p where s: "s = (u, v, p)" by (cases s)
  have n1: "1 \<le> n" using assms(5) by simp
  have uv: "is_field n u" "is_field n v" "is_field n p"
    using assms(2) by (simp_all add: s fields_def)
  have ui: "is_field n (set_edges_u_i u_init (u_intermediate g u v))"
    using uv assms(3) n1 by (simp add: set_edges_u_i_field u_intermediate_field)
  have vi: "is_field n (set_edges v_init (v_intermediate g u v))"
    using uv assms(4) n1 by (simp add: set_edges_field v_intermediate_field)
  have un: "is_field n (arr_sub (set_edges_u_i u_init (u_intermediate g u v))
              (scale (dt g / DENSITY g) (d_dx g p)))"
    using ui uv by (simp add: arith_field d_dx_field)
  have vn: "is_field n (arr_sub (set_edges v_init (v_intermediate g u v))
              (scale (dt g / DENSITY g) (d_dy g p)))"
    using vi uv by (simp add: arith_field d_dy_field)
  show ?thesis
    using assms(1) assms(8)
      nth_set_edges [OF assms(3) un n1 assms(6,7)] nth_set_edges [OF assms(4) vn n1 assms(6,7)]
    by (auto simp: s iterator_cases split: if_splits)
qed

lemma timestep_loop_edges:
  assumes "is_field n u_init" "is_field n v_init" "2 \<le> n" "i < n" "j < n" "edge n i j"
  shows "timestep_loop (Suc m) g u_init v_init s = Inr (u', v', p') \<Longrightarrow> fields n s \<Longrightarrow>
     u' ! i ! j = float32 (u_init ! i ! j) \<and> v' ! i ! j = float32 (v_init ! i ! j)"
proof (induction m arbitrary: s)
  case 0
  then have "iterator g u_init v_init s = Inr (u', v', p')"
    by (simp split: sum.splits)
  then show ?case
    using "0.prems"(2) assms by (rule iterator_edges)
next
  case (Suc m)
  from Suc.prems(1) obtain s1 where s1: "iterator g u_init v_init s = Inr s1"
    and rest: "timestep_loop (Suc m) g u_init v_init s1 = Inr (u', v', p')"
    by (cases "iterator g u_init v_init s") simp_all
  have "fields n s1"
    using s1 Suc.prems(2) assms(1,2,3) by (rule iterator_fields)
  with rest show ?case by (rule Suc.IH)
qed

text \<open>Three of the four pressure edges copy their interior neighbour.\<close>

lemma jacobi_body_neumann_three_edges:
  assumes "is_field n p_prev" "2 \<le> n" "i < n" "j < n"
  shows "jacobi_body g rhs p_prev ! i ! 0 = jacobi_body g rhs p_prev ! i ! 1"
    and "jacobi_body g rhs p_prev ! i ! (n - 1) = jacobi_body g rhs p_prev ! i ! (n - 2)"
    and "jacobi_body g rhs p_prev ! 0 ! j = jacobi_body g rhs p_prev ! 1 ! j"
proof -
  have lt: "0 < n" "1 < n" "n - 1 < n" "n - 2 < n" using assms(2) by simp_all
  show "jacobi_body g rhs p_prev ! i ! 0 = jacobi_body g rhs p_prev ! i ! 1"
    by (simp only: nth_jacobi_body [OF assms(1,2,3) lt(1)] nth_jacobi_body [OF assms(1,2,3) lt(2)])
      simp
  show "jacobi_body g rhs p_prev ! i ! (n - 1) = jacobi_body g rhs p_prev ! i ! (n - 2)"
    using assms(2)
    by (simp only: nth_jacobi_body [OF assms(1,2,3) lt(3)] nth_jacobi_body [OF assms(1,2,3) lt(4)])
      auto
  show "jacobi_body g rhs p_prev ! 0 ! j = jacobi_body g rhs p_prev ! 1 ! j"
    by (simp only: nth_jacobi_body [OF assms(1,2) lt(1) assms(4)]
        nth_jacobi_body [OF assms(1,2) lt(2) assms(4)]) simp
qed

text \<open>
  Nothing downstream reads the last row of the intermediate \<open>u\<close>: the iterator returns
  what it would return with the matching edge in that row.
\<close>

lemma set_edges_u_i_above_last_row:
  assumes "is_field n u_init" "is_field n u_i" "1 \<le> n" "i < n - 1" "j < n"
  shows "set_edges_u_i u_init u_i ! i ! j = set_edges u_init u_i ! i ! j"
  using assms by (simp add: nth_set_edges_u_i [where n = n] nth_set_edges [where n = n])

lemma d_dx_ignores_last_row:
  assumes "is_field n a" "is_field n b"
    "\<And>i j. i < n - 1 \<Longrightarrow> j < n \<Longrightarrow> a ! i ! j = b ! i ! j"
  shows "d_dx g a = d_dx g b"
proof (rule field_eqI [where n = n])
  show "is_field n (d_dx g a)" "is_field n (d_dx g b)"
    using assms(1,2) by (simp_all add: d_dx_field)
next
  fix i j assume ij: "i < n" "j < n"
  show "d_dx g a ! i ! j = d_dx g b ! i ! j"
  proof (cases "interior n i j")
    case True
    then have "i < n - 1" "j + 1 < n" "j - 1 < n" by (auto simp: interior_def)
    then show ?thesis
      using True by (simp add: nth_d_dx [OF assms(1) ij] nth_d_dx [OF assms(2) ij] assms(3))
  next
    case False
    then show ?thesis
      by (simp add: nth_d_dx [OF assms(1) ij] nth_d_dx [OF assms(2) ij])
  qed
qed

lemma set_edges_ignores_last_row:
  assumes "is_field n init" "is_field n a" "is_field n b" "1 \<le> n"
    "\<And>i j. i < n - 1 \<Longrightarrow> j < n \<Longrightarrow> a ! i ! j = b ! i ! j"
  shows "set_edges init a = set_edges init b"
proof (rule field_eqI [where n = n])
  show "is_field n (set_edges init a)" "is_field n (set_edges init b)"
    using assms(1-4) by (simp_all add: set_edges_field)
next
  fix i j assume ij: "i < n" "j < n"
  show "set_edges init a ! i ! j = set_edges init b ! i ! j"
  proof (cases "edge n i j")
    case True
    then show ?thesis
      by (simp add: nth_set_edges [OF assms(1,2,4) ij] nth_set_edges [OF assms(1,3,4) ij])
  next
    case False
    then have "i < n - 1" using ij by (auto simp: edge_def)
    then show ?thesis
      using False ij
      by (simp add: nth_set_edges [OF assms(1,2,4) ij] nth_set_edges [OF assms(1,3,4) ij] assms(5))
  qed
qed

lemma iterator_last_row_of_u_i_unused:
  assumes "is_field n u_init" "is_field n v_init" "is_field n u_prev" "is_field n v_prev"
    "is_field n p_prev" "2 \<le> n"
  shows "iterator g u_init v_init (u_prev, v_prev, p_prev) =
     (if dt g = 0 then Inl ZeroDivisionError
      else if JACOBI_ITERATIONS g \<le> 0 then Inl UnboundLocalError
      else if DENSITY g = 0 then Inl ZeroDivisionError
      else Inr
        (set_edges u_init
           (arr_sub (set_edges u_init (u_intermediate g u_prev v_prev))
              (scale (dt g / DENSITY g) (d_dx g p_prev))),
         set_edges v_init
           (arr_sub (set_edges v_init (v_intermediate g u_prev v_prev))
              (scale (dt g / DENSITY g) (d_dy g p_prev))),
         jacobi_body g
           (scale (DENSITY g / dt g)
              (arr_add (d_dx g (set_edges u_init (u_intermediate g u_prev v_prev)))
                       (d_dy g (set_edges v_init (v_intermediate g u_prev v_prev)))))
           p_prev))"
proof -
  define a where "a = set_edges_u_i u_init (u_intermediate g u_prev v_prev)"
  define b where "b = set_edges u_init (u_intermediate g u_prev v_prev)"
  have n1: "1 \<le> n" using assms(6) by simp
  have ui: "is_field n (u_intermediate g u_prev v_prev)"
    using assms(3,4) by (rule u_intermediate_field)
  have fa: "is_field n a" unfolding a_def using assms(1) ui n1 by (rule set_edges_u_i_field)
  have fb: "is_field n b" unfolding b_def using assms(1) ui n1 by (rule set_edges_field)
  have ab: "a ! i ! j = b ! i ! j" if "i < n - 1" "j < n" for i j
    unfolding a_def b_def using assms(1) ui n1 that by (rule set_edges_u_i_above_last_row)
  have d: "d_dx g a = d_dx g b"
    using fa fb ab by (rule d_dx_ignores_last_row)
  have fd: "is_field n (scale (dt g / DENSITY g) (d_dx g p_prev))"
    using assms(5) by (simp add: arith_field d_dx_field)
  have "set_edges u_init (arr_sub a (scale (dt g / DENSITY g) (d_dx g p_prev))) =
      set_edges u_init (arr_sub b (scale (dt g / DENSITY g) (d_dx g p_prev)))"
  proof (rule set_edges_ignores_last_row [where n = n])
    fix i j assume "i < n - 1" "j < n"
    then show "arr_sub a (scale (dt g / DENSITY g) (d_dx g p_prev)) ! i ! j =
        arr_sub b (scale (dt g / DENSITY g) (d_dx g p_prev)) ! i ! j"
      using fa fb fd by (simp add: nth_arith(2) [where m = n] ab)
  qed (use assms(1) fa fb fd n1 in \<open>simp_all add: arith_field\<close>)
  then show ?thesis
    using d by (simp add: iterator_cases a_def b_def)
qed

text \<open>Away from the edges the corrector subtracts the gradient of \<open>p_prev\<close>.\<close>

lemma iterator_interior:
  assumes "iterator g u_init v_init (u_prev, v_prev, p_prev) = Inr (u_next, v_next, p_next)"
    "is_field n u_init" "is_field n v_init" "is_field n u_prev" "is_field n v_prev"
    "is_field n p_prev" "2 \<le> n" "i < n" "j < n" "\<not> edge n i j"
  shows "u_next ! i ! j =
       set_edges_u_i u_init (u_intermediate g u_prev v_prev) ! i ! j
         - dt g / DENSITY g * d_dx g p_prev ! i ! j"
    and "v_next ! i ! j =
       set_edges v_init (v_intermediate g u_prev v_prev) ! i ! j
         - dt g / DENSITY g * d_dy g p_prev ! i ! j"
proof -
  have n1: "1 \<le> n" using assms(7) by simp
  have ui: "is_field n (set_edges_u_i u_init (u_intermediate g u_prev v_prev))"
    using assms(2,4,5) n1 by (simp add: set_edges_u_i_field u_intermediate_field)
  have vi: "is_field n (set_edges v_init (v_intermediate g u_prev v_prev))"
    using assms(3,4,5) n1 by (simp add: set_edges_field v_intermediate_field)
  have dx: "is_field n (scale (dt g / DENSITY g) (d_dx g p_prev))"
    "is_field n (d_dx g p_prev)"
    using assms(6) by (simp_all add: arith_field d_dx_field)
  have dy: "is_field n (scale (dt g / DENSITY g) (d_dy g p_prev))"
    "is_field n (d_dy g p_prev)"
    using assms(6) by (simp_all add: arith_field d_dy_field)
  have eq: "u_next = set_edges u_init
           (arr_sub (set_edges_u_i u_init (u_intermediate g u_prev v_prev))
              (scale (dt g / DENSITY g) (d_dx g p_prev)))"
    "v_next = set_edges v_init
           (arr_sub (set_edges v_init (v_intermediate g u_prev v_prev))
              (scale (dt g / DENSITY g) (d_dy g p_prev)))"
    using assms(1) by (simp_all add: iterator_cases split: if_splits)
  show "u_next ! i ! j =
       set_edges_u_i u_init (u_intermediate g u_prev v_prev) ! i ! j
         - dt g / DENSITY g * d_dx g p_prev ! i ! j"
    using assms(2,8,9,10) n1 ui dx
    by (simp add: eq nth_set_edges [where n = n] arith_field nth_arith [where m = n])
  show "v_next ! i ! j =
       set_edges v_init (v_intermediate g u_prev v_prev) ! i ! j
         - dt g / DENSITY g * d_dy g p_prev ! i ! j"
    using assms(3,8,9,10) n1 vi dy
    by (simp add: eq nth_set_edges [where n = n] arith_field nth_arith [where m = n])
qed


subsection \<open>The example inputs\<close>

lemma examples_are_fields: "is_field 3 u3" "is_field 3 v3" "is_field 3 p3" "is_field 3 u3w"
  by (simp_all add: is_field_def u3_def v3_def p3_def u3w_def)

text \<open>\<open>float32\<close> at a few values: exact ones, one tenth, two ties, a subnormal.\<close>

lemma float32_examples:
  "map float32 [0, 1, - 17, 19 / 8, 1 / 2 ^ 140] = [0, 1, - 17, 19 / 8, 1 / 2 ^ 140]"
  "float32 (1 / 10) = 13421773 / 134217728"
  "float32 16777217 = 16777216" "float32 16777219 = 16777220"
  "float32 (3 / 2 ^ 150) = 1 / 2 ^ 148"
  "float32 (1 + 1 / 2 ^ 30) = 1"
  by code_simp+

lemma constants_example: "constants 3 1 1 1 1 2 = Inr g3"
  by (simp add: constants_def g3_def)

text \<open>Any two positive iteration counts give the same pressure.\<close>

lemma p_update_iterations_irrelevant:
  assumes "1 \<le> JACOBI_ITERATIONS g" "1 \<le> k"
  shows "p_update (g\<lparr>JACOBI_ITERATIONS := k\<rparr>) u v p_prev = p_update g u v p_prev"
proof -
  have "jacobi_interior (g\<lparr>JACOBI_ITERATIONS := k\<rparr>) = jacobi_interior g"
    by (intro ext) (simp add: jacobi_interior_def)
  then have "jacobi_body (g\<lparr>JACOBI_ITERATIONS := k\<rparr>) = jacobi_body g"
    by (intro ext) (simp add: jacobi_body_def)
  moreover have "d_dx (g\<lparr>JACOBI_ITERATIONS := k\<rparr>) = d_dx g" "d_dy (g\<lparr>JACOBI_ITERATIONS := k\<rparr>) = d_dy g"
    by (intro ext; simp add: d_dx_def d_dy_def)+
  ultimately show ?thesis
    using assms by (simp add: p_update_eq)
qed

section \<open>The claims\<close>

subsection \<open>The differential operators\<close>

text \<open>
  C6. For every \<open>n \<times> n\<close> field \<open>f\<close>, each of \<open>d_dx\<close>, \<open>d_dy\<close>, \<open>d2_dx2\<close>, \<open>d2_dy2\<close> and
  \<open>laplacian\<close> returns an \<open>n \<times> n\<close> field that is zero on the four edges and holds the
  centred difference at every interior cell \<open>1 \<le> i, j \<le> n - 2\<close>; the Laplacian is the sum
  of the two second differences. The functions are pure, so \<open>f\<close> itself is left as it was.
\<close>

theorem derivative_operators:
  assumes "is_field n f" "i < n" "j < n"
  shows "is_field n (d_dx g f) \<and> is_field n (d_dy g f) \<and> is_field n (d2_dx2 g f) \<and>
     is_field n (d2_dy2 g f) \<and> is_field n (laplacian g f) \<and>
     (i = 0 \<or> i = n - 1 \<or> j = 0 \<or> j = n - 1 \<longrightarrow>
        d_dx g f ! i ! j = 0 \<and> d_dy g f ! i ! j = 0 \<and> d2_dx2 g f ! i ! j = 0 \<and>
        d2_dy2 g f ! i ! j = 0 \<and> laplacian g f ! i ! j = 0) \<and>
     (1 \<le> i \<and> i \<le> n - 2 \<and> 1 \<le> j \<and> j \<le> n - 2 \<longrightarrow>
        d_dx g f ! i ! j = (f ! i ! (j + 1) - f ! i ! (j - 1)) / (2 * ELEMENT_LENGTH g) \<and>
        d_dy g f ! i ! j = (f ! (i + 1) ! j - f ! (i - 1) ! j) / (2 * ELEMENT_LENGTH g) \<and>
        d2_dx2 g f ! i ! j =
          (f ! i ! (j + 1) - 2 * f ! i ! j + f ! i ! (j - 1)) / (ELEMENT_LENGTH g)\<^sup>2 \<and>
        d2_dy2 g f ! i ! j =
          (f ! (i + 1) ! j - 2 * f ! i ! j + f ! (i - 1) ! j) / (ELEMENT_LENGTH g)\<^sup>2) \<and>
     laplacian g f ! i ! j = d2_dx2 g f ! i ! j + d2_dy2 g f ! i ! j"
proof -
  have shapes: "is_field n (d_dx g f)" "is_field n (d_dy g f)" "is_field n (d2_dx2 g f)"
    "is_field n (d2_dy2 g f)" "is_field n (laplacian g f)"
    using assms(1) by (simp_all add: d_dx_field d_dy_field d2_dx2_field d2_dy2_field laplacian_field)
  have lap: "laplacian g f ! i ! j = d2_dx2 g f ! i ! j + d2_dy2 g f ! i ! j"
    using assms by (rule nth_laplacian)
  have zero: "d_dx g f ! i ! j = 0 \<and> d_dy g f ! i ! j = 0 \<and> d2_dx2 g f ! i ! j = 0 \<and>
        d2_dy2 g f ! i ! j = 0 \<and> laplacian g f ! i ! j = 0"
    if "i = 0 \<or> i = n - 1 \<or> j = 0 \<or> j = n - 1"
  proof -
    have "\<not> interior n i j" using that by (auto simp: interior_def)
    then show ?thesis
      by (simp add: lap nth_d_dx [OF assms] nth_d_dy [OF assms] nth_d2_dx2 [OF assms]
          nth_d2_dy2 [OF assms])
  qed
  have inside: "d_dx g f ! i ! j = (f ! i ! (j + 1) - f ! i ! (j - 1)) / (2 * ELEMENT_LENGTH g) \<and>
        d_dy g f ! i ! j = (f ! (i + 1) ! j - f ! (i - 1) ! j) / (2 * ELEMENT_LENGTH g) \<and>
        d2_dx2 g f ! i ! j =
          (f ! i ! (j + 1) - 2 * f ! i ! j + f ! i ! (j - 1)) / (ELEMENT_LENGTH g)\<^sup>2 \<and>
        d2_dy2 g f ! i ! j =
          (f ! (i + 1) ! j - 2 * f ! i ! j + f ! (i - 1) ! j) / (ELEMENT_LENGTH g)\<^sup>2"
    if "1 \<le> i \<and> i \<le> n - 2 \<and> 1 \<le> j \<and> j \<le> n - 2"
  proof -
    have "interior n i j" using that by (auto simp: interior_def)
    then show ?thesis
      by (simp add: nth_d_dx [OF assms] nth_d_dy [OF assms] nth_d2_dx2 [OF assms]
          nth_d2_dy2 [OF assms])
  qed
  show ?thesis
    using shapes lap zero inside by blast
qed

text \<open>At the centre and on the lower edge of the \<open>3 \<times> 3\<close> example, where \<open>h = 1 / 2\<close>:\<close>

theorem derivative_operators_witness:
  "is_field 3 u3 \<and>
   d_dx g3 u3 ! 1 ! 1 = 2 \<and> d_dy g3 u3 ! 1 ! 1 = 6 \<and> d2_dx2 g3 u3 ! 1 ! 1 = 0 \<and>
   d2_dy2 g3 u3 ! 1 ! 1 = 0 \<and> d_dx g3 u3 ! 2 ! 1 = 0 \<and> laplacian g3 u3 ! 2 ! 1 = 0"
proof -
  have h: "is_field 3 u3" by (rule examples_are_fields)
  have c: "u3 ! 1 ! 0 = 4" "u3 ! 1 ! 1 = 5" "u3 ! 1 ! 2 = 6" "u3 ! 0 ! 1 = 2" "u3 ! 2 ! 1 = 8"
    "ELEMENT_LENGTH g3 = 1 / 2"
    by (simp_all add: u3_def g3_def)
  have inside: "d_dx g3 u3 ! 1 ! 1 = (u3 ! 1 ! (1 + 1) - u3 ! 1 ! (1 - 1)) / (2 * ELEMENT_LENGTH g3)"
    "d_dy g3 u3 ! 1 ! 1 = (u3 ! (1 + 1) ! 1 - u3 ! (1 - 1) ! 1) / (2 * ELEMENT_LENGTH g3)"
    "d2_dx2 g3 u3 ! 1 ! 1 =
       (u3 ! 1 ! (1 + 1) - 2 * u3 ! 1 ! 1 + u3 ! 1 ! (1 - 1)) / (ELEMENT_LENGTH g3)\<^sup>2"
    "d2_dy2 g3 u3 ! 1 ! 1 =
       (u3 ! (1 + 1) ! 1 - 2 * u3 ! 1 ! 1 + u3 ! (1 - 1) ! 1) / (ELEMENT_LENGTH g3)\<^sup>2"
    using derivative_operators [OF h, of 1 1 g3] by simp_all
  have outside: "d_dx g3 u3 ! 2 ! 1 = 0" "laplacian g3 u3 ! 2 ! 1 = 0"
    using derivative_operators [OF h, of 2 1 g3] by simp_all
  have n: "(1::nat) + 1 = 2" "(1::nat) - 1 = 0" by simp_all
  have "d_dx g3 u3 ! 1 ! 1 = 2" "d_dy g3 u3 ! 1 ! 1 = 6" "d2_dx2 g3 u3 ! 1 ! 1 = 0"
    "d2_dy2 g3 u3 ! 1 ! 1 = 0"
    by (simp_all only: inside n c) (simp_all add: power2_eq_square)
  with h outside show ?thesis by blast
qed

subsection \<open>The predictor\<close>

text \<open>
  C7. For every pair of \<open>n \<times> n\<close> fields \<open>(u, v)\<close> the predictor returns, cell by cell,
  \<open>u - dt (u d_dx(u) + v d_dy(u)) + dt \<nu> laplacian(u)\<close> and
  \<open>v - dt (u d_dx(v) + v d_dy(v)) + dt \<nu> laplacian(v)\<close>, all products element-wise.
\<close>

theorem predictor_formula:
  assumes "is_field n u" "is_field n v" "i < n" "j < n"
  shows "is_field n (u_intermediate g u v) \<and> is_field n (v_intermediate g u v) \<and>
     u_intermediate g u v ! i ! j =
       u ! i ! j - dt g * (u ! i ! j * d_dx g u ! i ! j + v ! i ! j * d_dy g u ! i ! j)
         + dt g * VISCOSITY g * laplacian g u ! i ! j \<and>
     v_intermediate g u v ! i ! j =
       v ! i ! j - dt g * (u ! i ! j * d_dx g v ! i ! j + v ! i ! j * d_dy g v ! i ! j)
         + dt g * VISCOSITY g * laplacian g v ! i ! j"
  using assms
  by (simp add: u_intermediate_field v_intermediate_field nth_u_intermediate [where n = n]
      nth_v_intermediate [where n = n])

theorem predictor_formula_witness:
  "is_field 3 u3 \<and> is_field 3 v3 \<and>
   u_intermediate g3 u3 v3 ! 1 ! 1 = 5 - 1 * (5 * 2 + 2 * 6) + 1 * 1 * 0 \<and>
   v_intermediate g3 u3 v3 ! 1 ! 1 = 2 - 1 * (5 * 0 + 2 * 0) + 1 * 1 * (- 32) \<and>
   u_intermediate g3 u3 v3 ! 1 ! 1 = - 17 \<and> v_intermediate g3 u3 v3 ! 1 ! 1 = - 30"
proof -
  have h: "is_field 3 u3" "is_field 3 v3" by (rule examples_are_fields)+
  have c: "d_dx g3 u3 ! 1 ! 1 = 2" "d_dy g3 u3 ! 1 ! 1 = 6" "laplacian g3 u3 ! 1 ! 1 = 0"
    "d_dx g3 v3 ! 1 ! 1 = 0" "d_dy g3 v3 ! 1 ! 1 = 0" "laplacian g3 v3 ! 1 ! 1 = - 32"
    "u3 ! 1 ! 1 = 5" "v3 ! 1 ! 1 = 2" "dt g3 = 1" "VISCOSITY g3 = 1"
    by code_simp+
  have "u_intermediate g3 u3 v3 ! 1 ! 1 = 5 - 1 * (5 * 2 + 2 * 6) + 1 * 1 * 0"
    "v_intermediate g3 u3 v3 ! 1 ! 1 = 2 - 1 * (5 * 0 + 2 * 0) + 1 * 1 * (- 32)"
    using predictor_formula [OF h, of 1 1 g3] by (simp_all only: c)
  with h show ?thesis by simp
qed

subsection \<open>The pressure solver\<close>

text \<open>
  C1. The claim: the solver chains \<open>K\<close> sweeps, sweep \<open>k + 1\<close> reading the result of
  sweep \<open>k\<close>, so that for \<open>K \<ge> 2\<close> the result differs from that of one sweep. The source
  repeats the first sweep instead (lemma \<open>p_update_eq\<close>: the result is
  \<open>jacobi_body g rhs p_prev\<close> for every positive count). With \<open>JACOBI_ITERATIONS = 2\<close> on
  the example, \<open>p_update\<close> returns the result of one sweep, which is not that of two
  chained sweeps.
\<close>

theorem p_update_repeats_one_sweep:
  "p_update g3 u3 v3 p3 =
     Inr (spec_jacobi_sweeps 1 g3 (scale (DENSITY g3 / dt g3) (arr_add (d_dx g3 u3) (d_dy g3 v3))) p3) \<and>
   p_update g3 u3 v3 p3 \<noteq>
     Inr (spec_jacobi_sweeps 2 g3 (scale (DENSITY g3 / dt g3) (arr_add (d_dx g3 u3) (d_dy g3 v3))) p3) \<and>
   JACOBI_ITERATIONS g3 = 2"
  by code_simp

text \<open>
  C3. The claim: after the boundary pass of a sweep every pressure edge equals its interior
  neighbour, the last row included (\<open>p[N-1,:] = p[N-2,:]\<close>). The fourth edge assignment
  of the source copies the last row onto itself, so that row stays zero while the row above
  it holds the interior update (the other three edges do copy their neighbour, lemma
  \<open>jacobi_body_neumann_three_edges\<close>). On the example the last row is \<open>[0, 0, 0]\<close> and the
  row above is \<open>[19/8, 19/8, 19/8]\<close>.
\<close>

theorem pressure_last_row_not_copied:
  "p_update g3 u3 v3 p3 =
     Inr [[19 / 8, 19 / 8, 19 / 8], [19 / 8, 19 / 8, 19 / 8], [0, 0, 0]]"
  by code_simp

text \<open>
  C8. For all \<open>n \<times> n\<close> inputs (\<open>n \<ge> 2\<close>) the pressure field that \<open>p_update\<close> returns has
  a last row of zeros, whatever the iteration count; and it does return a field as soon as
  \<open>dt\<close> is not zero and the count is positive.
\<close>

theorem p_update_last_row_zero:
  assumes "is_field n u" "is_field n v" "is_field n p_prev" "2 \<le> n"
  shows "(dt g \<noteq> 0 \<and> 1 \<le> JACOBI_ITERATIONS g \<longrightarrow> (\<exists>p. p_update g u v p_prev = Inr p)) \<and>
     (\<forall>p j. p_update g u v p_prev = Inr p \<and> j < n \<longrightarrow> p ! (n - 1) ! j = 0)"
proof -
  have "p ! (n - 1) ! j = 0" if "p_update g u v p_prev = Inr p" "j < n" for p j
  proof -
    have "p = jacobi_body g (scale (DENSITY g / dt g) (arr_add (d_dx g u) (d_dy g v))) p_prev"
      using that(1) by (simp add: p_update_eq split: if_splits)
    then show ?thesis
      using jacobi_body_last_row [OF assms(3,4) that(2)] by simp
  qed
  then show ?thesis
    by (auto simp: p_update_eq)
qed

theorem p_update_last_row_zero_witness:
  "is_field 3 u3 \<and> is_field 3 v3 \<and> is_field 3 p3 \<and>
   (\<exists>p. p_update g3 u3 v3 p3 = Inr p \<and> p ! 2 ! 0 = 0 \<and> p ! 2 ! 1 = 0 \<and> p ! 2 ! 2 = 0)"
proof -
  have h: "is_field 3 u3" "is_field 3 v3" "is_field 3 p3" by (rule examples_are_fields)+
  have c: "dt g3 \<noteq> 0" "1 \<le> JACOBI_ITERATIONS g3" by (simp_all add: g3_def)
  have t: "(\<exists>p. p_update g3 u3 v3 p3 = Inr p) \<and>
     (\<forall>p j. p_update g3 u3 v3 p3 = Inr p \<and> j < 3 \<longrightarrow> p ! (3 - 1) ! j = 0)"
    using p_update_last_row_zero [OF h, of g3] c by simp
  then obtain p where p: "p_update g3 u3 v3 p3 = Inr p" by blast
  with t have "p ! 2 ! 0 = 0 \<and> p ! 2 ! 1 = 0 \<and> p ! 2 ! 2 = 0" by simp
  with p h show ?thesis by blast
qed

subsection \<open>The iterator\<close>

text \<open>
  C2. The claim: the corrector subtracts the gradient of the pressure that the current
  timestep's solve returns. The source passes \<open>p_prev\<close>, the pressure carried in, to
  \<open>u_update\<close> and \<open>v_update\<close> (lemma \<open>iterator_interior\<close>). On the example the centre of
  the returned \<open>u\<close> is \<open>-19\<close>, which is the corrector on \<open>p3\<close>; on the pressure just
  solved the corrector gives \<open>-17\<close>.
\<close>

theorem corrector_uses_previous_pressure:
  "iterator g3 u3 v3 (u3, v3, p3) =
     Inr ([[1, 2, 3], [4, - 19, 6], [7, 8, 9]],
          [[1, 0, 1], [0, - 32, 0], [1, 0, 3]],
          [[19 / 8, 19 / 8, 19 / 8], [19 / 8, 19 / 8, 19 / 8], [0, 0, 0]]) \<and>
   u_update g3 (set_edges_u_i u3 (u_intermediate g3 u3 v3)) p3 =
     Inr [[1, 2, 3], [4, - 19, 6], [3, 6, 9]] \<and>
   u_update g3 (set_edges_u_i u3 (u_intermediate g3 u3 v3))
       [[19 / 8, 19 / 8, 19 / 8], [19 / 8, 19 / 8, 19 / 8], [0, 0, 0]] =
     Inr [[1, 2, 3], [4, - 17, 6], [3, 6, 9]]"
  by code_simp

text \<open>
  C4. The claim: after the predictor each edge of \<open>u*\<close> is overwritten with the matching
  edge of \<open>u0\<close>. The fourth assignment of the source writes the last column of \<open>u_init\<close>
  into the last row (lemma \<open>nth_set_edges_u_i\<close>); the assignments for \<open>v_i\<close>, and those
  after the corrector, use the last row. On the example the last row of \<open>u_i\<close> becomes
  \<open>[3, 6, 9]\<close>, the last column of \<open>u3\<close>, where its last row is \<open>[7, 8, 9]\<close>.
\<close>

theorem intermediate_u_last_row_transposed:
  "set_edges_u_i u3 (u_intermediate g3 u3 v3) = [[1, 2, 3], [4, - 17, 6], [3, 6, 9]] \<and>
   row u3 (- 1) = [7, 8, 9] \<and> col u3 (- 1) = [3, 6, 9]"
  by code_simp

text \<open>
  C5, as stated: after every transition the \<open>u\<close> and \<open>v\<close> of the state equal \<open>u0\<close> and
  \<open>v0\<close> bit for bit at every cell of the four edges, for any initial conditions. The
  iterator stores the float64 initial values into float32 arrays: a wall value that is not
  a float32 comes back rounded. With the corner \<open>1 + 1 / 2 ^ 30\<close> the state after one
  transition has the corner \<open>1\<close>.
\<close>

theorem wall_value_rounded:
  "timestep_loop 1 g3 u3w v3 (u3w, v3, p3) =
     Inr ([[1, 2, 3], [4, - 19, 6], [7, 8, 9]],
          [[1, 0, 1], [0, - 32, 0], [1, 0, 3]],
          [[19 / 8, 19 / 8, 19 / 8], [19 / 8, 19 / 8, 19 / 8], [0, 0, 0]]) \<and>
   u3w ! 0 ! 0 = 1 + 1 / 2 ^ 30 \<and> u3w ! 0 ! 0 \<noteq> 1"
  by code_simp

text \<open>
  C5, amended: after any number \<open>m \<ge> 1\<close> of transitions from \<open>(u0, v0, p0)\<close> that return
  a state, the \<open>u\<close> and \<open>v\<close> of the state equal, at every cell of the four edges, the
  float32 nearest to the value of \<open>u0\<close> and \<open>v0\<close> there; so they equal \<open>u0\<close> and \<open>v0\<close>
  exactly wherever these are float32 values. (\<open>n \<ge> 2\<close>: the pressure step reads the
  column \<open>-2\<close>; initial values within the float32 range.)
\<close>

theorem wall_velocities_float32:
  assumes "is_field n u_init" "is_field n v_init" "is_field n p_init" "2 \<le> n" "1 \<le> m"
    "i < n" "j < n" "i = 0 \<or> i = n - 1 \<or> j = 0 \<or> j = n - 1"
    "float32_finite (u_init ! i ! j)" "float32_finite (v_init ! i ! j)"
    "timestep_loop m g u_init v_init (u_init, v_init, p_init) = Inr (u, v, p)"
  shows "u ! i ! j = float32 (u_init ! i ! j) \<and> v ! i ! j = float32 (v_init ! i ! j) \<and>
     (float32 (u_init ! i ! j) = u_init ! i ! j \<longrightarrow> u ! i ! j = u_init ! i ! j) \<and>
     (float32 (v_init ! i ! j) = v_init ! i ! j \<longrightarrow> v ! i ! j = v_init ! i ! j)"
proof -
  obtain m' where m: "m = Suc m'" using assms(5) by (cases m) simp_all
  have e: "edge n i j" using assms(8) by (simp add: edge_def)
  have s: "fields n (u_init, v_init, p_init)" using assms(1,2,3) by (simp add: fields_def)
  have "u ! i ! j = float32 (u_init ! i ! j) \<and> v ! i ! j = float32 (v_init ! i ! j)"
    using timestep_loop_edges [OF assms(1,2,4,6,7) e assms(11) [unfolded m] s] .
  then show ?thesis by simp
qed

text \<open>
  After two transitions of the example, at the lower left corner, where the initial values
  are float32 values; and after one transition from \<open>u3w\<close>, at the rounded corner.
\<close>

theorem wall_velocities_float32_witness:
  "is_field 3 u3 \<and> is_field 3 v3 \<and> is_field 3 p3 \<and> is_field 3 u3w \<and>
   float32_finite (u3 ! 2 ! 0) \<and> float32_finite (v3 ! 2 ! 0) \<and>
   float32_finite (u3w ! 0 ! 0) \<and> float32_finite (v3 ! 0 ! 0) \<and>
   timestep_loop 2 g3 u3 v3 (u3, v3, p3) =
     Inr ([[1, 2, 3], [4, 595, 6], [7, 8, 9]],
          [[1, 0, 1], [0, 3859 / 8, 0], [1, 0, 3]],
          [[53 / 32, 53 / 32, 53 / 32], [53 / 32, 53 / 32, 53 / 32], [0, 0, 0]]) \<and>
   [[1, 2, 3], [4, 595, 6], [7, 8, 9]] ! 2 ! 0 = float32 (u3 ! 2 ! 0) \<and>
   [[1, 2, 3], [4, 595, 6], [7, 8, 9]] ! 2 ! 0 = u3 ! 2 ! 0 \<and>
   [[1, 0, 1], [0, 3859 / 8, 0], [1, 0, 3]] ! 2 ! 0 = v3 ! 2 ! (0::nat) \<and>
   [[1, 2, 3], [4, - 19, 6], [7, 8, 9]] ! 0 ! 0 = float32 (u3w ! 0 ! 0)"
proof -
  have h: "is_field 3 u3" "is_field 3 v3" "is_field 3 p3" "is_field 3 u3w"
    by (rule examples_are_fields)+
  have r: "float32_finite (u3 ! 2 ! 0)" "float32_finite (v3 ! 2 ! 0)"
    "float32_finite (u3w ! 0 ! 0)" "float32_finite (v3 ! 0 ! 0)"
    by code_simp+
  have x: "float32 (u3 ! 2 ! 0) = u3 ! 2 ! 0" "float32 (v3 ! 2 ! 0) = v3 ! 2 ! 0"
    by code_simp+
  have run2: "timestep_loop 2 g3 u3 v3 (u3, v3, p3) =
     Inr ([[1, 2, 3], [4, 595, 6], [7, 8, 9]],
          [[1, 0, 1], [0, 3859 / 8, 0], [1, 0, 3]],
          [[53 / 32, 53 / 32, 53 / 32], [53 / 32, 53 / 32, 53 / 32], [0, 0, 0]])"
    by code_simp
  have run1: "timestep_loop 1 g3 u3w v3 (u3w, v3, p3) =
     Inr ([[1, 2, 3], [4, - 19, 6], [7, 8, 9]],
          [[1, 0, 1], [0, - 32, 0], [1, 0, 3]],
          [[19 / 8, 19 / 8, 19 / 8], [19 / 8, 19 / 8, 19 / 8], [0, 0, 0]])"
    by code_simp
  have a: "[[1, 2, 3], [4, 595, 6], [7, 8, 9]] ! 2 ! 0 = float32 (u3 ! 2 ! 0) \<and>
     [[1, 0, 1], [0, 3859 / 8, 0], [1, 0, 3]] ! 2 ! 0 = float32 (v3 ! 2 ! 0) \<and>
     (float32 (u3 ! 2 ! 0) = u3 ! 2 ! 0 \<longrightarrow> [[1, 2, 3], [4, 595, 6], [7, 8, 9]] ! 2 ! 0 = u3 ! 2 ! 0) \<and>
     (float32 (v3 ! 2 ! 0) = v3 ! 2 ! 0 \<longrightarrow>
        [[1, 0, 1], [0, 3859 / 8, 0], [1, 0, 3]] ! 2 ! 0 = v3 ! 2 ! 0)"
    by (rule wall_velocities_float32 [OF h(1,2,3) _ _ _ _ _ r(1,2) run2]) simp_all
  have b: "[[1, 2, 3], [4, - 19, 6], [7, 8, 9]] ! 0 ! 0 = float32 (u3w ! 0 ! 0) \<and>
     [[1, 0, 1], [0, - 32, 0], [1, 0, 3]] ! 0 ! 0 = float32 (v3 ! 0 ! 0) \<and>
     (float32 (u3w ! 0 ! 0) = u3w ! 0 ! 0 \<longrightarrow>
        [[1, 2, 3], [4, - 19, 6], [7, 8, 9]] ! 0 ! 0 = u3w ! 0 ! 0) \<and>
     (float32 (v3 ! 0 ! 0) = v3 ! 0 ! 0 \<longrightarrow> [[1, 0, 1], [0, - 32, 0], [1, 0, 3]] ! 0 ! 0 = v3 ! 0 ! 0)"
    by (rule wall_velocities_float32 [OF h(4,2,3) _ _ _ _ _ r(3,4) run1]) simp_all
  from a x have a': "[[1, 2, 3], [4, 595, 6], [7, 8, 9]] ! 2 ! 0 = float32 (u3 ! 2 ! 0)"
    "[[1, 2, 3], [4, 595, 6], [7, 8, 9]] ! 2 ! 0 = u3 ! 2 ! 0"
    "[[1, 0, 1], [0, 3859 / 8, 0], [1, 0, 3]] ! 2 ! 0 = v3 ! 2 ! (0::nat)"
    by blast+
  from b have b': "[[1, 2, 3], [4, - 19, 6], [7, 8, 9]] ! 0 ! 0 = float32 (u3w ! 0 ! 0)"
    by blast
  show ?thesis
    using h r run2 a' b' by blast
qed

subsection \<open>The driver\<close>

text \<open>
  C10. With \<open>TIMESTEPS = 0\<close> the driver returns \<open>(u0, v0, p0)\<close> unchanged, for every
  initial state.
\<close>

theorem driver_zero_timesteps:
  "TIMESTEPS g = 0 \<Longrightarrow> driver g u0 v0 p0 = Inr (u0, v0, p0)"
  by (simp add: driver_def)

theorem driver_zero_timesteps_witness:
  "TIMESTEPS (g3\<lparr>TIMESTEPS := 0\<rparr>) = 0 \<and>
   driver (g3\<lparr>TIMESTEPS := 0\<rparr>) u3 v3 p3 = Inr (u3, v3, p3)"
  using driver_zero_timesteps [of "g3\<lparr>TIMESTEPS := 0\<rparr>" u3 v3 p3] by simp

text \<open>
  C9, as stated: every configuration with a non-positive \<open>N\<close>, \<open>dt\<close>, \<open>K\<close> or \<open>T\<close> is
  rejected before the first timestep. The source checks nothing: with \<open>TIMESTEPS = 0\<close> the
  run returns the initial state, and with \<open>dt = -1\<close> it performs its timestep.
\<close>

theorem nonpositive_configuration_accepted:
  "simulation 3 1 0 1 1 2 u3 v3 p3 = Inr (u3, v3, p3) \<and>
   simulation 3 (- 1) 1 1 1 2 u3 v3 p3 =
     Inr ([[1, 2, 3], [4, 29, 6], [7, 8, 9]], [[1, 0, 1], [0, 36, 0], [1, 0, 3]],
          [[21 / 8, 21 / 8, 21 / 8], [21 / 8, 21 / 8, 21 / 8], [0, 0, 0]])"
  by code_simp

text \<open>
  C9, amended: nothing checks a configuration. With \<open>N \<ge> 2\<close>, initial fields
  \<open>N \<times> N\<close> and a non-positive \<open>TIMESTEPS\<close>, whatever \<open>dt\<close> and \<open>JACOBI_ITERATIONS\<close>
  are (zero and negative values included), the run is not rejected: it performs no
  timestep and ends in the initial state \<open>(u0, v0, p0)\<close>.
\<close>

theorem nonpositive_timesteps_not_rejected:
  assumes "2 \<le> n" "t \<le> 0"
    "is_field (nat n) u_init" "is_field (nat n) v_init" "is_field (nat n) p_init"
  shows "simulation n d t nu rho k u_init v_init p_init = Inr (u_init, v_init, p_init)"
  using assms(1,2) by (simp add: simulation_def constants_def driver_def)

text \<open>With \<open>dt = 0\<close>, \<open>TIMESTEPS = -4\<close> and \<open>JACOBI_ITERATIONS = 0\<close> on the example:\<close>

theorem nonpositive_timesteps_not_rejected_witness:
  "(2::int) \<le> 3 \<and> (- 4::int) \<le> 0 \<and>
   is_field (nat 3) u3 \<and> is_field (nat 3) v3 \<and> is_field (nat 3) p3 \<and>
   simulation 3 0 (- 4) 1 1 0 u3 v3 p3 = Inr (u3, v3, p3)"
proof -
  have h: "is_field (nat 3) u3" "is_field (nat 3) v3" "is_field (nat 3) p3"
    using examples_are_fields by simp_all
  show ?thesis
    using h nonpositive_timesteps_not_rejected [OF _ _ h, of "- 4" 0 1 1 0] by simp
qed

end
